theory Spec2Isabelle
  imports Main
begin

text \<open>
  Package \<^verbatim>\<open>kubeutil\<close> of the operator's test tooling: \<^verbatim>\<open>DefaultRunner.Run\<close> runs an external
  command under a context, \<^verbatim>\<open>ApplyClusterRoleBinding\<close> applies a manifest through a runner, and
  \<^verbatim>\<open>ServiceAccountToken\<close> asks for a token through a runner until it gets one or the
  context is done. Each function is a HOL function of its Go arguments and of the world
  outside the call, which it returns changed; the Go library and the host are parameters.
\<close>

section \<open>Go values the package passes around\<close>

text \<open>
  A Go \<^verbatim>\<open>error\<close> value. \<open>Leaf m\<close> is an error with message \<open>m\<close> and no cause
  (\<^verbatim>\<open>errors.New\<close>, \<^verbatim>\<open>fmt.Errorf\<close> without \<^verbatim>\<open>%w\<close>, and whatever the operating system,
  the JSON decoder or the context hand back); \<open>Wrapped m c\<close> is what \<^verbatim>\<open>fmt.Errorf\<close>
  builds for a format with one \<^verbatim>\<open>%w\<close>: the formatted message \<open>m\<close> and the cause \<open>c\<close>.
  The nil error is \<open>None\<close> of \<open>error option\<close>.
\<close>

datatype error = Leaf string | Wrapped string error

fun Error :: "error \<Rightarrow> string" where
  "Error (Leaf m) = m"
| "Error (Wrapped m c) = m"

fun Unwrap :: "error \<Rightarrow> error option" where
  "Unwrap (Leaf m) = None"
| "Unwrap (Wrapped m c) = Some c"

text \<open>
  A \<^verbatim>\<open>context.Context\<close>, as far as one call sees it on entry: \<open>Err\<close> is what
  \<^verbatim>\<open>ctx.Err()\<close> returns then (nil while the context is live). What happens to the
  context later is part of the schedule of the poller, see \<open>event\<close> below.
\<close>

record "context" =
  Err :: "error option"

text \<open>
  \<^verbatim>\<open>*exec.Cmd\<close>: the fields this package reads or writes. \<open>Stdin\<close> is the reader's
  content (\<open>None\<close> is the nil reader, \<open>Some []\<close> a reader of zero bytes); \<open>Env\<close> is a Go
  slice, whose nil and empty values both have length 0; \<open>Ctx\<close> is the context the command
  is bound to (\<open>None\<close> for \<^verbatim>\<open>exec.Command\<close>); \<open>LookErr\<close> is the field \<^verbatim>\<open>Err\<close> that
  \<^verbatim>\<open>exec.Command\<close> sets when the lookup of the name fails.
\<close>

record cmd =
  Path :: string
  Args :: "string list"
  Dir :: string
  Stdin :: "string option"
  Env :: "string list"
  Ctx :: "context option"
  LookErr :: "error option"

text \<open>
  \<^verbatim>\<open>slo.Logger\<close>: \<^verbatim>\<open>Logf\<close> receives the formatted line and acts on the world \<open>'w\<close>
  (everything outside the call: the cluster, the file system, the log sink).
\<close>

type_synonym 'w logger = "string \<Rightarrow> 'w \<Rightarrow> 'w"

text \<open>The logger that does nothing.\<close>

definition nopLogger :: "'w logger" where
  "nopLogger line w = w"

text \<open>
  Modelled from the spec: \<^verbatim>\<open>slo.NewLogger\<close>, of package \<^verbatim>\<open>pkg/slo\<close>, which is not among the
  sources. The spec: the logging sink is "an injectable, optional interface accepting
  formatted line messages; a missing sink is a guaranteed no-op, never an error". A nil
  logger becomes the logger that does nothing, any other logger is kept.
\<close>

definition NewLogger :: "'w logger option \<Rightarrow> 'w logger" where
  "NewLogger l = (case l of None \<Rightarrow> nopLogger | Some lg \<Rightarrow> lg)"

text \<open>
  The interface \<^verbatim>\<open>CmdRunner\<close>: \<^verbatim>\<open>Run(ctx, logger, cmd)\<close> returns \<^verbatim>\<open>(string, error)\<close> and
  may change the world. A runner is a function: every call of it returns.
\<close>

type_synonym 'w runner =
  "context \<Rightarrow> 'w logger option \<Rightarrow> cmd \<Rightarrow> 'w \<Rightarrow> (string \<times> error option) \<times> 'w"

text \<open>
  What the Go runtime and the host give the package. None of it is code of the
  repository, so it is a parameter of every function below:
  \<^item> \<open>Environ\<close>: \<^verbatim>\<open>os.Environ()\<close>;
  \<^item> \<open>LookPath\<close>: \<^verbatim>\<open>exec.LookPath\<close>, the resolved path and the error;
  \<^item> \<open>Start\<close>: \<^verbatim>\<open>(*exec.Cmd).Run\<close> with \<^verbatim>\<open>Stdout\<close> and \<^verbatim>\<open>Stderr\<close> set to two fresh
    buffers: the bytes of the first, the bytes of the second, the error;
  \<^item> \<open>Quote\<close>: the verb \<^verbatim>\<open>%q\<close> of package \<^verbatim>\<open>fmt\<close> on a string (\<^verbatim>\<open>strconv.Quote\<close>);
  \<^item> \<open>TrimSpace\<close>: \<^verbatim>\<open>strings.TrimSpace\<close>;
  \<^item> \<open>Unmarshal\<close>: \<^verbatim>\<open>json.Unmarshal\<close> into a \<^verbatim>\<open>tokenRequest\<close>: the error, or the
    field \<^verbatim>\<open>Status.Token\<close> of the decoded value.
\<close>

record 'w host =
  Environ :: "'w \<Rightarrow> string list"
  LookPath :: "'w \<Rightarrow> string \<Rightarrow> string \<times> error option"
  Start :: "cmd \<Rightarrow> 'w \<Rightarrow> (string \<times> string \<times> error option) \<times> 'w"
  Quote :: "string \<Rightarrow> string"
  TrimSpace :: "string \<Rightarrow> string"
  Unmarshal :: "string \<Rightarrow> error + string"

section \<open>Library functions with a fixed meaning\<close>

text \<open>\<^verbatim>\<open>strings.Join\<close>.\<close>

fun Join :: "string list \<Rightarrow> string \<Rightarrow> string" where
  "Join [] sep = []"
| "Join [x] sep = x"
| "Join (x # y # ys) sep = x @ sep @ Join (y # ys) sep"

text \<open>
  \<^verbatim>\<open>filepath.Base\<close> on a Unix host: the empty path gives a dot, trailing slashes are
  stripped, the last element is kept, and a path of slashes only gives one slash.
\<close>

definition Base :: "string \<Rightarrow> string" where
  "Base path =
     (if path = [] then ''.''
      else let p = rev (dropWhile (\<lambda>c. c = CHR ''/'') (rev path));
               q = rev (takeWhile (\<lambda>c. c \<noteq> CHR ''/'') (rev p))
           in if q = [] then ''/'' else q)"

text \<open>
  \<^verbatim>\<open>exec.Command(name, arg...)\<close>: \<^verbatim>\<open>Path\<close> is the name and \<^verbatim>\<open>Args\<close> the name followed by
  the arguments; a name that is its own base is looked up, the path found replaces
  \<^verbatim>\<open>Path\<close> and the error of the lookup is kept in the command.
\<close>

definition Command :: "'w host \<Rightarrow> 'w \<Rightarrow> string \<Rightarrow> string list \<Rightarrow> cmd" where
  "Command h w name arg =
     (let c = \<lparr>Path = name, Args = name # arg, Dir = [], Stdin = None, Env = [],
                Ctx = None, LookErr = None\<rparr>
      in if Base name = name
         then (case LookPath h w name of
                 (lp, err) \<Rightarrow> c\<lparr>Path := (if lp \<noteq> [] then lp else name), LookErr := err\<rparr>)
         else c)"

text \<open>\<^verbatim>\<open>exec.CommandContext\<close>: the same command, bound to the context.\<close>

definition CommandContext :: "'w host \<Rightarrow> 'w \<Rightarrow> context \<Rightarrow> string \<Rightarrow> string list \<Rightarrow> cmd" where
  "CommandContext h w ctx name arg = (Command h w name arg)\<lparr>Ctx := Some ctx\<rparr>"

section \<open>The process runner: \<^verbatim>\<open>DefaultRunner.Run\<close>\<close>

definition marker :: string where
  "marker = ''GO111MODULE=on''"

text \<open>
  Lines 29 to 46 of the method: the command \<^verbatim>\<open>c2\<close> that is executed, rebuilt from the
  caller's command.
\<close>

definition rebuilt :: "'w host \<Rightarrow> context \<Rightarrow> cmd \<Rightarrow> 'w \<Rightarrow> cmd" where
  "rebuilt h ctx cmd w =
     (let path = (if Path cmd = [] \<and> length (Args cmd) > 0 then hd (Args cmd) else Path cmd);
          args = (if length (Args cmd) > 1 then tl (Args cmd) else []);
          c2 = (CommandContext h w ctx path args)
                 \<lparr>Dir := Dir cmd, Stdin := Stdin cmd, Env := Env cmd\<rparr>
      in if length (Env c2) = 0
         then c2\<lparr>Env := Environ h w @ [marker]\<rparr>
         else c2\<lparr>Env := Env c2 @ [marker]\<rparr>)"

text \<open>
  The whole method. The world changes twice: the logger writes the command line, then the
  process runs.
\<close>

definition Run :: "'w host \<Rightarrow> 'w runner" where
  "Run h ctx logger cmd w =
     (let lg = NewLogger logger;
          c2 = rebuilt h ctx cmd w;
          command = Join (Args c2) '' '';
          w1 = lg (''running: '' @ Quote h command) w
      in case Start h c2 w1 of
           ((outStr, errStr, err), w2) \<Rightarrow>
             (case err of
                Some e \<Rightarrow>
                  (let combined = TrimSpace h (errStr @ [CHR 0x0A] @ outStr)
                   in ((outStr,
                        Some (Wrapped (Quote h command @ '' failed: '' @ combined @ '': '' @ Error e) e)),
                       w2))
              | None \<Rightarrow> ((outStr, None), w2)))"

text \<open>The value \<^verbatim>\<open>DefaultRunner{}\<close> as a \<^verbatim>\<open>CmdRunner\<close>.\<close>

definition DefaultRunner :: "'w host \<Rightarrow> 'w runner" where
  "DefaultRunner h = Run h"

section \<open>What a call leaves behind\<close>

text \<open>
  The result of a call of one of the two entry points: the value the Go function
  returns, the world after it, and the commands it handed to \<^verbatim>\<open>r.Run\<close>, in order.
\<close>

record ('a, 'w) outcome =
  returned :: 'a
  world :: 'w
  runs :: "cmd list"

section \<open>Declarative apply: \<^verbatim>\<open>ApplyClusterRoleBinding\<close>\<close>

text \<open>\<^verbatim>\<open>strings.TrimRight\<close> for a cutset of ASCII characters.\<close>

definition TrimRight :: "string \<Rightarrow> string \<Rightarrow> string" where
  "TrimRight s cutset = rev (dropWhile (\<lambda>c. c \<in> set cutset) (rev s))"

definition manifest :: "string \<Rightarrow> string \<Rightarrow> string \<Rightarrow> string \<Rightarrow> string" where
  "manifest name clusterRole sa ns =
     ''apiVersion: rbac.authorization.k8s.io/v1'' @ [CHR 0x0A] @
     ''kind: ClusterRoleBinding'' @ [CHR 0x0A] @
     ''metadata:'' @ [CHR 0x0A] @
     ''  name: '' @ name @ [CHR 0x0A] @
     ''roleRef:'' @ [CHR 0x0A] @
     ''  apiGroup: rbac.authorization.k8s.io'' @ [CHR 0x0A] @
     ''  kind: ClusterRole'' @ [CHR 0x0A] @
     ''  name: '' @ clusterRole @ [CHR 0x0A] @
     ''subjects:'' @ [CHR 0x0A] @
     ''- kind: ServiceAccount'' @ [CHR 0x0A] @
     ''  name: '' @ sa @ [CHR 0x0A] @
     ''  namespace: '' @ ns @ [CHR 0x0A]"

definition ApplyClusterRoleBinding ::
  "'w host \<Rightarrow> context \<Rightarrow> 'w logger option \<Rightarrow> 'w runner option \<Rightarrow>
   string \<Rightarrow> string \<Rightarrow> string \<Rightarrow> string \<Rightarrow> 'w \<Rightarrow> (error option, 'w) outcome" where
  "ApplyClusterRoleBinding h ctx logger r name clusterRole ns sa w =
     (let lg = NewLogger logger;
          rr = (case r of None \<Rightarrow> DefaultRunner h | Some x \<Rightarrow> x);
          w1 = lg (''apply ClusterRoleBinding name='' @ Quote h name @ '' role='' @
                   Quote h clusterRole @ '' sa='' @ ns @ ''/'' @ sa) w;
          cmd = (Command h w1 ''kubectl'' [''apply'', ''-f'', ''-''])
                  \<lparr>Stdin := Some (manifest name clusterRole sa ns)\<rparr>
      in case rr ctx (Some lg) cmd w1 of
           ((stdout, err), w2) \<Rightarrow>
             (let s = TrimSpace h stdout;
                  w3 = (if s \<noteq> [] then lg (TrimRight s [CHR 0x0A]) w2 else w2)
              in case err of
                   Some e \<Rightarrow>
                     \<lparr>returned = Some (Wrapped (''kubectl apply clusterrolebinding failed: '' @ Error e) e),
                      world = w3, runs = [cmd]\<rparr>
                 | None \<Rightarrow> \<lparr>returned = None, world = w3, runs = [cmd]\<rparr>))"

section \<open>The credential poller: \<^verbatim>\<open>ServiceAccountToken\<close>\<close>

definition tokenRequestBody :: string where
  "tokenRequestBody = ''{\"apiVersion\":\"authentication.k8s.io/v1\",\"kind\":\"TokenRequest\"}''"

text \<open>
  The closure \<^verbatim>\<open>tryOnce\<close>, with the variables it captures as arguments. It returns what
  the closure returns, the world after the call of the runner, and the command it
  submitted.
\<close>

definition tryOnce ::
  "'w host \<Rightarrow> context \<Rightarrow> 'w logger \<Rightarrow> 'w runner \<Rightarrow> string \<Rightarrow> string \<Rightarrow> 'w \<Rightarrow>
   (string \<times> error option) \<times> 'w \<times> cmd" where
  "tryOnce h ctx lg r ns sa w =
     (let cmd = (Command h w ''kubectl''
                   [''create'', ''--raw'',
                    ''/api/v1/namespaces/'' @ ns @ ''/serviceaccounts/'' @ sa @ ''/token'',
                    ''-f'', ''-''])
                  \<lparr>Stdin := Some tokenRequestBody\<rparr>
      in case r ctx (Some lg) cmd w of
           ((stdout, err), w') \<Rightarrow>
             (case err of
                Some e \<Rightarrow>
                  (([], Some (Wrapped (''token request failed (ns='' @ ns @ '' sa='' @ sa @ ''): '' @
                                       Error e) e)), w', cmd)
              | None \<Rightarrow>
                  (case Unmarshal h stdout of
                     Inl e \<Rightarrow>
                       (([], Some (Wrapped (''token response json parse failed: '' @ Error e @
                                            '' (body='' @ Quote h stdout @ '')'') e)), w', cmd)
                   | Inr token \<Rightarrow>
                       if token = [] then (([], Some (Leaf ''token is empty'')), w', cmd)
                       else ((token, None), w', cmd))))"

text \<open>
  One pass through the \<^verbatim>\<open>select\<close> of the loop takes one of its two cases: the ticker
  fired, or the context is done. \<open>Done e\<close> carries what \<^verbatim>\<open>ctx.Err()\<close> returns from then on,
  which the contract of \<^verbatim>\<open>context.Context\<close> makes a non-nil error. When both channels are
  ready Go picks either case, so the schedule of a call, the list of the cases its
  successive passes take, is an input of the model. The period of the ticker, two
  seconds, is not part of it.
\<close>

datatype event = Tick | Done error

text \<open>
  The \<^verbatim>\<open>for\<close> loop, on the schedule that is left, with the variable \<^verbatim>\<open>lastErr\<close>, the
  world and the commands submitted so far. A schedule that ends before the loop returns
  describes a call that is still waiting in the \<^verbatim>\<open>select\<close>: the value is \<open>None\<close>.
\<close>

fun poll ::
  "'w host \<Rightarrow> context \<Rightarrow> 'w logger \<Rightarrow> 'w runner \<Rightarrow> string \<Rightarrow> string \<Rightarrow>
   event list \<Rightarrow> error option \<Rightarrow> 'w \<Rightarrow> cmd list \<Rightarrow> (string \<times> error option, 'w) outcome option" where
  "poll h ctx lg r ns sa [] lastErr w cs = None"
| "poll h ctx lg r ns sa (Done ce # es) lastErr w cs =
     Some \<lparr>returned = ([], (if lastErr = None then Some ce else lastErr)),
           world = w, runs = cs\<rparr>"
| "poll h ctx lg r ns sa (Tick # es) lastErr w cs =
     (case tryOnce h ctx lg r ns sa w of
        ((tok, err), w', c) \<Rightarrow>
          (case err of
             None \<Rightarrow> Some \<lparr>returned = (tok, None), world = w', runs = cs @ [c]\<rparr>
           | Some e \<Rightarrow>
               poll h ctx lg r ns sa es (Some e)
                 (lg (''token not ready yet: '' @ Error e) w') (cs @ [c])))"

definition ServiceAccountToken ::
  "'w host \<Rightarrow> context \<Rightarrow> 'w logger option \<Rightarrow> 'w runner option \<Rightarrow> string \<Rightarrow> string \<Rightarrow>
   event list \<Rightarrow> 'w \<Rightarrow> (string \<times> error option, 'w) outcome option" where
  "ServiceAccountToken h ctx logger r ns sa schedule w =
     (let lg = NewLogger logger;
          rr = (case r of None \<Rightarrow> DefaultRunner h | Some x \<Rightarrow> x)
      in case Err ctx of
           Some e \<Rightarrow> Some \<lparr>returned = ([], Some e), world = w, runs = []\<rparr>
         | None \<Rightarrow>
             (case tryOnce h ctx lg rr ns sa w of
                ((tok, err), w', c) \<Rightarrow>
                  (case err of
                     None \<Rightarrow> Some \<lparr>returned = (tok, None), world = w', runs = [c]\<rparr>
                   | Some e \<Rightarrow>
                       poll h ctx lg rr ns sa schedule (Some e)
                         (lg (''token not ready yet: '' @ Error e) w') [c])))"

section \<open>Vocabulary of the statements\<close>

text \<open>
  The attempts of one call, numbered from 0. \<open>world_before k w\<close> is the world in which
  attempt \<open>k\<close> starts when the call started in \<open>w\<close> and the attempts before it failed: each
  failed attempt leaves the world its runner produced, with the line "token not ready
  yet" logged. \<open>attempt k w\<close> is what \<^verbatim>\<open>tryOnce\<close> yields there, \<open>failure\<close> its error and
  \<open>submitted\<close> the command it gave the runner.
\<close>

fun world_before ::
  "'w host \<Rightarrow> context \<Rightarrow> 'w logger \<Rightarrow> 'w runner \<Rightarrow> string \<Rightarrow> string \<Rightarrow> nat \<Rightarrow> 'w \<Rightarrow> 'w" where
  "world_before h ctx lg r ns sa 0 w = w"
| "world_before h ctx lg r ns sa (Suc k) w =
     (case tryOnce h ctx lg r ns sa (world_before h ctx lg r ns sa k w) of
        ((tok, err), w', c) \<Rightarrow>
          (case err of
             Some e \<Rightarrow> lg (''token not ready yet: '' @ Error e) w'
           | None \<Rightarrow> w'))"

definition attempt ::
  "'w host \<Rightarrow> context \<Rightarrow> 'w logger \<Rightarrow> 'w runner \<Rightarrow> string \<Rightarrow> string \<Rightarrow> nat \<Rightarrow> 'w \<Rightarrow>
   (string \<times> error option) \<times> 'w \<times> cmd" where
  "attempt h ctx lg r ns sa k w = tryOnce h ctx lg r ns sa (world_before h ctx lg r ns sa k w)"

definition failure :: "(string \<times> error option) \<times> 'w \<times> cmd \<Rightarrow> error option" where
  "failure t = snd (fst t)"

definition submitted :: "(string \<times> error option) \<times> 'w \<times> cmd \<Rightarrow> cmd" where
  "submitted t = snd (snd t)"

text \<open>The collaborators a call works with once the nil ones are replaced.\<close>

definition runnerOr :: "'w host \<Rightarrow> 'w runner option \<Rightarrow> 'w runner" where
  "runnerOr h r = (case r of None \<Rightarrow> DefaultRunner h | Some x \<Rightarrow> x)"

text \<open>
  The command line \<^verbatim>\<open>DefaultRunner.Run\<close> logs and reports, and the world in which it
  starts the process.
\<close>

definition commandLine :: "'w host \<Rightarrow> context \<Rightarrow> cmd \<Rightarrow> 'w \<Rightarrow> string" where
  "commandLine h ctx cmd w = Join (Args (rebuilt h ctx cmd w)) '' ''"

definition logged :: "'w host \<Rightarrow> context \<Rightarrow> 'w logger option \<Rightarrow> cmd \<Rightarrow> 'w \<Rightarrow> 'w" where
  "logged h ctx logger cmd w =
     NewLogger logger (''running: '' @ Quote h (commandLine h ctx cmd w)) w"

text \<open>\<^verbatim>\<open>strings.HasPrefix\<close> and \<^verbatim>\<open>strings.Contains\<close>.\<close>

fun HasPrefix :: "string \<Rightarrow> string \<Rightarrow> bool" where
  "HasPrefix s [] = True"
| "HasPrefix [] (p # ps) = False"
| "HasPrefix (c # s) (p # ps) = (c = p \<and> HasPrefix s ps)"

fun Contains :: "string \<Rightarrow> string \<Rightarrow> bool" where
  "Contains [] sub = (sub = [])"
| "Contains (c # s) sub = (HasPrefix (c # s) sub \<or> Contains s sub)"

section \<open>A host for the examples\<close>

text \<open>
  The examples run on a host whose world is the list of the outcomes of the processes
  still to be started (standard output, standard error, error): \<open>exStart\<close> takes the
  first, and a process started when none is left fails.

  \<open>asciiQuote\<close> is \<^verbatim>\<open>strconv.Quote\<close> on ASCII strings: the double quote and the backslash
  are escaped with a backslash, the other printable characters are copied, seven control
  characters have a letter, and the remaining ones are written in hexadecimal.
  \<open>asciiTrimSpace\<close> is \<^verbatim>\<open>strings.TrimSpace\<close> on ASCII strings. \<open>tokenDoc\<close> decodes the
  documents \<^verbatim>\<open>{"status":{"token":"t"}}\<close>, with \<open>t\<close> made of printable ASCII characters
  other than the double quote and the backslash, as \<^verbatim>\<open>encoding/json\<close> does, and refuses
  any other input; the examples give it such documents and text that is not JSON.
\<close>

type_synonym proc = "string \<times> string \<times> error option"

definition exStart :: "cmd \<Rightarrow> proc list \<Rightarrow> proc \<times> proc list" where
  "exStart c w =
     (case w of
        [] \<Rightarrow> (([], [], Some (Leaf ''exit status 1'')), [])
      | p # ps \<Rightarrow> (p, ps))"

definition hexDigit :: "nat \<Rightarrow> char" where
  "hexDigit n = ''0123456789abcdef'' ! n"

definition quoteByte :: "char \<Rightarrow> string" where
  "quoteByte c =
     (let n = (of_char c :: nat) in
      if n = 0x22 \<or> n = 0x5C then [CHR 0x5C, c]
      else if 0x20 \<le> n \<and> n < 0x7F then [c]
      else if n = 0x07 then [CHR 0x5C, CHR ''a'']
      else if n = 0x08 then [CHR 0x5C, CHR ''b'']
      else if n = 0x0C then [CHR 0x5C, CHR ''f'']
      else if n = 0x0A then [CHR 0x5C, CHR ''n'']
      else if n = 0x0D then [CHR 0x5C, CHR ''r'']
      else if n = 0x09 then [CHR 0x5C, CHR ''t'']
      else if n = 0x0B then [CHR 0x5C, CHR ''v'']
      else [CHR 0x5C, CHR ''x'', hexDigit (n div 16), hexDigit (n mod 16)])"

definition asciiQuote :: "string \<Rightarrow> string" where
  "asciiQuote s = [CHR 0x22] @ concat (map quoteByte s) @ [CHR 0x22]"

definition isSpace :: "char \<Rightarrow> bool" where
  "isSpace c = (c = CHR 0x09 \<or> c = CHR 0x0A \<or> c = CHR 0x0B \<or> c = CHR 0x0C \<or>
                c = CHR 0x0D \<or> c = CHR 0x20)"

definition asciiTrimSpace :: "string \<Rightarrow> string" where
  "asciiTrimSpace s = rev (dropWhile isSpace (rev (dropWhile isSpace s)))"

definition tokenDoc :: "string \<Rightarrow> error + string" where
  "tokenDoc body =
     (let pre = ''{\"status\":{\"token\":\"'';
          post = ''\"}}'';
          t = take (length body - length pre - length post) (drop (length pre) body)
      in if body = pre @ t @ post \<and>
            list_all (\<lambda>c. 0x20 \<le> (of_char c :: nat) \<and> (of_char c :: nat) < 0x7F \<and>
                           c \<noteq> CHR 0x22 \<and> c \<noteq> CHR 0x5C) t
         then Inr t
         else Inl (Leaf ''invalid character''))"

definition exHost :: "proc list host" where
  "exHost =
     \<lparr>Environ = (\<lambda>w. [''HOME=/root'', ''PATH=/usr/bin'']),
      LookPath = (\<lambda>w name. if name = ''kubectl'' then (''/usr/bin/kubectl'', None)
                             else ([], Some (Leaf ''executable file not found''))),
      Start = exStart,
      Quote = asciiQuote,
      TrimSpace = asciiTrimSpace,
      Unmarshal = tokenDoc\<rparr>"

text \<open>A runner that answers from the same list, whatever the command.\<close>

definition scripted :: "proc list runner" where
  "scripted ctx logger c w =
     (case w of
        [] \<Rightarrow> (([], Some (Leaf ''no answer left'')), [])
      | (out, errs, e) # ps \<Rightarrow> ((out, e), ps))"

definition live :: "context" where
  "live = \<lparr>Err = None\<rparr>"

definition canceled :: "context" where
  "canceled = \<lparr>Err = Some (Leaf ''context canceled'')\<rparr>"

text \<open>A command a caller built by hand, and one with a quoted word in an argument.\<close>

definition lsCmd :: cmd where
  "lsCmd = \<lparr>Path = ''/bin/ls'', Args = [''ls'', ''-l''], Dir = ''/tmp'', Stdin = Some [],
            Env = [''A=1'', ''B=2''], Ctx = None, LookErr = None\<rparr>"

definition shCmd :: cmd where
  "shCmd = \<lparr>Path = ''/bin/sh'', Args = [''sh'', ''-c'', ''echo \"hi\"''], Dir = [], Stdin = None,
            Env = [], Ctx = None, LookErr = None\<rparr>"

text \<open>A token response carrying the token \<open>t\<close>, and a process that fails.\<close>

definition tokenBody :: "string \<Rightarrow> string" where
  "tokenBody t = ''{\"status\":{\"token\":\"'' @ t @ ''\"}}''"

definition notReady :: proc where
  "notReady = ([], ''serviceaccount not found'', Some (Leaf ''exit status 1''))"

text \<open>
  The example host again, with processes that print the environment they are started
  with, one entry a line, and succeed.
\<close>

definition printEnv :: "cmd \<Rightarrow> proc list \<Rightarrow> proc \<times> proc list" where
  "printEnv c w = ((Join (Env c) [CHR 0x0A], [], None), w)"

definition envHost :: "proc list host" where
  "envHost = exHost\<lparr>Start := printEnv\<rparr>"

section \<open>The rebuilt command and the result of \<^verbatim>\<open>Run\<close>\<close>

lemma Env_rebuilt:
  "Env (rebuilt h ctx cmd w) = (if Env cmd = [] then Environ h w else Env cmd) @ [marker]"
  by (simp add: rebuilt_def Let_def)

lemma Ctx_rebuilt: "Ctx (rebuilt h ctx cmd w) = Some ctx"
  by (simp add: rebuilt_def Let_def CommandContext_def)

lemma Dir_rebuilt: "Dir (rebuilt h ctx cmd w) = Dir cmd"
  by (simp add: rebuilt_def Let_def)

lemma Stdin_rebuilt: "Stdin (rebuilt h ctx cmd w) = Stdin cmd"
  by (simp add: rebuilt_def Let_def)

lemma Args_Command: "Args (Command h w name arg) = name # arg"
  by (simp add: Command_def Let_def split: prod.splits)

lemma Path_Command:
  "Path (Command h w name arg) =
     (if Base name = name \<and> fst (LookPath h w name) \<noteq> [] then fst (LookPath h w name) else name)"
  by (simp add: Command_def Let_def split: prod.splits)

lemma tail_args: "(if Suc 0 < length xs then tl xs else []) = tl xs"
  by (cases xs; cases "tl xs"; simp)

lemma Args_rebuilt:
  "Args (rebuilt h ctx cmd w) =
     (if Path cmd = [] \<and> Args cmd \<noteq> [] then hd (Args cmd) else Path cmd) # tl (Args cmd)"
  by (simp add: rebuilt_def Let_def CommandContext_def Args_Command tail_args)

lemma Path_rebuilt:
  "Path (rebuilt h ctx cmd w) =
     (let path = (if Path cmd = [] \<and> Args cmd \<noteq> [] then hd (Args cmd) else Path cmd)
      in if Base path = path \<and> fst (LookPath h w path) \<noteq> [] then fst (LookPath h w path) else path)"
  by (simp add: rebuilt_def Let_def CommandContext_def Path_Command)

text \<open>
  \<^verbatim>\<open>Run\<close> starts the rebuilt command in the world its log line left, and its result is
  read off the outcome of that process.
\<close>

lemma Run_outcome:
  assumes "Start h (rebuilt h ctx cmd w) (logged h ctx logger cmd w) = ((out, errs, e), w2)"
  shows "Run h ctx logger cmd w =
           ((out, map_option (\<lambda>x. Wrapped (Quote h (commandLine h ctx cmd w) @ '' failed: '' @
                                  TrimSpace h (errs @ [CHR 0x0A] @ out) @ '': '' @ Error x) x) e), w2)"
  using assms by (simp add: Run_def Let_def logged_def commandLine_def split: option.splits)

section \<open>The loop of the poller\<close>

lemma world_before_shift:
  "world_before h ctx lg r ns sa (Suc k) w =
   world_before h ctx lg r ns sa k (world_before h ctx lg r ns sa (Suc 0) w)"
  by (induction k) simp_all

lemma attempt_shift:
  "attempt h ctx lg r ns sa (Suc k) w =
   attempt h ctx lg r ns sa k (world_before h ctx lg r ns sa (Suc 0) w)"
  unfolding attempt_def by (subst world_before_shift) simp

lemma poll_ticks:
  "(\<forall>k<n. failure (attempt h ctx lg r ns sa k w) \<noteq> None) \<Longrightarrow>
   poll h ctx lg r ns sa (replicate n Tick @ es) le w cs =
   poll h ctx lg r ns sa es
     (if n = 0 then le else failure (attempt h ctx lg r ns sa (n - 1) w))
     (world_before h ctx lg r ns sa n w)
     (cs @ map (\<lambda>k. submitted (attempt h ctx lg r ns sa k w)) [0..<n])"
proof (induction n arbitrary: w le cs)
  case 0
  then show ?case by simp
next
  case (Suc n)
  let ?w1 = "world_before h ctx lg r ns sa (Suc 0) w"
  obtain tok err w' c where t: "tryOnce h ctx lg r ns sa w = ((tok, err), w', c)"
    by (metis prod.exhaust)
  from Suc.prems have "failure (attempt h ctx lg r ns sa 0 w) \<noteq> None" by blast
  with t obtain e where e: "err = Some e"
    by (auto simp: failure_def attempt_def)
  have w1: "?w1 = lg (''token not ready yet: '' @ Error e) w'"
    using t e by simp
  have rest: "\<forall>k<n. failure (attempt h ctx lg r ns sa k ?w1) \<noteq> None"
    using Suc.prems attempt_shift[of h ctx lg r ns sa _ w] by auto
  have step: "poll h ctx lg r ns sa (replicate (Suc n) Tick @ es) le w cs =
              poll h ctx lg r ns sa (replicate n Tick @ es) (Some e) ?w1 (cs @ [c])"
    using t e w1 by simp
  have sub0: "submitted (attempt h ctx lg r ns sa 0 w) = c"
    using t by (simp add: submitted_def attempt_def)
  have f0: "failure (attempt h ctx lg r ns sa 0 w) = Some e"
    using t e by (simp add: failure_def attempt_def)
  have upt: "[0..<Suc n] = 0 # map Suc [0..<n]"
    by (simp only: map_Suc_upt upt_conv_Cons[OF zero_less_Suc])
  have maps: "map (\<lambda>k. submitted (attempt h ctx lg r ns sa k w)) [0..<Suc n] =
              c # map (\<lambda>k. submitted (attempt h ctx lg r ns sa k ?w1)) [0..<n]"
    unfolding upt by (simp add: sub0 attempt_shift comp_def)
  have le': "(if n = 0 then Some e else failure (attempt h ctx lg r ns sa (n - 1) ?w1)) =
             failure (attempt h ctx lg r ns sa (Suc n - 1) w)"
    using f0 attempt_shift[of h ctx lg r ns sa "n - 1" w] by (cases n) auto
  show ?case
    unfolding step Suc.IH[OF rest] le' world_before_shift[of h ctx lg r ns sa n w] maps
    by simp
qed

text \<open>The call after its pre-check, in terms of attempt 0 and the loop.\<close>

lemma SAT_live:
  assumes "Err ctx = None"
  shows "ServiceAccountToken h ctx logger r ns sa sch w =
     (case failure (attempt h ctx (NewLogger logger) (runnerOr h r) ns sa 0 w) of
        None \<Rightarrow> Some \<lparr>returned = fst (attempt h ctx (NewLogger logger) (runnerOr h r) ns sa 0 w),
                      world = fst (snd (attempt h ctx (NewLogger logger) (runnerOr h r) ns sa 0 w)),
                      runs = [submitted (attempt h ctx (NewLogger logger) (runnerOr h r) ns sa 0 w)]\<rparr>
      | Some e \<Rightarrow> poll h ctx (NewLogger logger) (runnerOr h r) ns sa sch (Some e)
                    (world_before h ctx (NewLogger logger) (runnerOr h r) ns sa (Suc 0) w)
                    [submitted (attempt h ctx (NewLogger logger) (runnerOr h r) ns sa 0 w)])"
  using assms
  by (simp add: ServiceAccountToken_def Let_def runnerOr_def attempt_def failure_def
      submitted_def split: prod.splits option.splits)

lemma SAT_ticks:
  assumes live: "Err ctx = None"
    and fails: "\<forall>k<Suc n. failure (attempt h ctx (NewLogger logger) (runnerOr h r) ns sa k w) \<noteq> None"
  shows "ServiceAccountToken h ctx logger r ns sa (replicate n Tick @ es) w =
     poll h ctx (NewLogger logger) (runnerOr h r) ns sa es
       (failure (attempt h ctx (NewLogger logger) (runnerOr h r) ns sa n w))
       (world_before h ctx (NewLogger logger) (runnerOr h r) ns sa (Suc n) w)
       (map (\<lambda>k. submitted (attempt h ctx (NewLogger logger) (runnerOr h r) ns sa k w)) [0..<Suc n])"
proof -
  let ?lg = "NewLogger logger" and ?r = "runnerOr h r"
  let ?w1 = "world_before h ctx ?lg ?r ns sa (Suc 0) w"
  from fails obtain e where e: "failure (attempt h ctx ?lg ?r ns sa 0 w) = Some e"
    by auto
  have rest: "\<forall>k<n. failure (attempt h ctx ?lg ?r ns sa k ?w1) \<noteq> None"
    using fails attempt_shift[of h ctx ?lg ?r ns sa _ w] by auto
  have upt: "[0..<Suc n] = 0 # map Suc [0..<n]"
    by (simp only: map_Suc_upt upt_conv_Cons[OF zero_less_Suc])
  have maps: "map (\<lambda>k. submitted (attempt h ctx ?lg ?r ns sa k w)) [0..<Suc n] =
              submitted (attempt h ctx ?lg ?r ns sa 0 w) #
              map (\<lambda>k. submitted (attempt h ctx ?lg ?r ns sa k ?w1)) [0..<n]"
    unfolding upt by (simp add: attempt_shift comp_def)
  have le: "(if n = 0 then Some e else failure (attempt h ctx ?lg ?r ns sa (n - 1) ?w1)) =
            failure (attempt h ctx ?lg ?r ns sa n w)"
    using e attempt_shift[of h ctx ?lg ?r ns sa "n - 1" w] by (cases n) auto
  show ?thesis
    unfolding SAT_live[OF live] e option.case poll_ticks[OF rest] le maps
      world_before_shift[of h ctx ?lg ?r ns sa n w]
    by simp
qed

lemma tryOnce_shape:
  "tryOnce h ctx lg r ns sa w = ((tok, err), w', c) \<Longrightarrow>
   (tok \<noteq> [] \<and> err = None) \<or> (tok = [] \<and> err \<noteq> None)"
  by (auto simp: tryOnce_def Let_def split: prod.splits option.splits sum.splits if_splits)

lemma poll_shape:
  "poll h ctx lg r ns sa es le w cs = Some out \<Longrightarrow>
   (fst (returned out) \<noteq> [] \<and> snd (returned out) = None) \<or>
   (fst (returned out) = [] \<and> snd (returned out) \<noteq> None)"
proof (induction es arbitrary: le w cs)
  case Nil
  then show ?case by simp
next
  case (Cons ev es)
  show ?case
  proof (cases ev)
    case Tick
    obtain tok err w' c where t: "tryOnce h ctx lg r ns sa w = ((tok, err), w', c)"
      by (metis prod.exhaust)
    show ?thesis
    proof (cases err)
      case None
      with Cons.prems Tick t tryOnce_shape[OF t] show ?thesis by auto
    next
      case (Some e)
      with Cons.prems Tick t show ?thesis by (auto dest: Cons.IH)
    qed
  next
    case (Done ce)
    with Cons.prems show ?thesis by (auto split: if_splits)
  qed
qed

lemma poll_returns:
  "Done ce \<in> set es \<Longrightarrow> \<exists>out. poll h ctx lg r ns sa es le w cs = Some out"
proof (induction es arbitrary: le w cs)
  case Nil
  then show ?case by simp
next
  case (Cons ev es)
  show ?case
  proof (cases ev)
    case Tick
    with Cons.prems have "Done ce \<in> set es" by simp
    from Cons.IH[OF this] Tick show ?thesis
      by (auto split: prod.splits option.splits)
  next
    case (Done x)
    then show ?thesis by simp
  qed
qed

section \<open>The examples, evaluated\<close>

lemma tokenDoc_abc: "tokenDoc (tokenBody ''abc123'') = Inr ''abc123''"
  by (simp add: tokenDoc_def tokenBody_def Let_def)

lemma tokenDoc_empty: "tokenDoc (tokenBody []) = Inr []"
  by (simp add: tokenDoc_def tokenBody_def Let_def)

lemma tokenDoc_text: "tokenDoc ''not json'' = Inl (Leaf ''invalid character'')"
  by (simp add: tokenDoc_def Let_def)

lemma tryOnce_scripted:
  "fst (tryOnce exHost ctx lg scripted ns sa ((out, errs, e) # ps)) =
     (case e of
        Some x \<Rightarrow> ([], Some (Wrapped (''token request failed (ns='' @ ns @ '' sa='' @ sa @ ''): '' @ Error x) x))
      | None \<Rightarrow>
          (case tokenDoc out of
             Inl x \<Rightarrow> ([], Some (Wrapped (''token response json parse failed: '' @ Error x @
                                          '' (body='' @ asciiQuote out @ '')'') x))
           | Inr t \<Rightarrow> if t = [] then ([], Some (Leaf ''token is empty'')) else (t, None)))"
  "fst (snd (tryOnce exHost ctx lg scripted ns sa ((out, errs, e) # ps))) = ps"
  by (simp_all add: tryOnce_def scripted_def exHost_def Let_def split: option.splits sum.splits)

lemma commandLine_shCmd: "commandLine exHost live shCmd w = ''/bin/sh -c echo \"hi\"''"
  by (simp add: commandLine_def Args_rebuilt shCmd_def)

lemma asciiQuote_sh:
  "asciiQuote ''/bin/sh -c echo \"hi\"'' =
     [CHR 0x22] @ ''/bin/sh -c echo '' @ [CHR 0x5C, CHR 0x22] @ ''hi'' @ [CHR 0x5C, CHR 0x22, CHR 0x22]"
  by (simp add: asciiQuote_def quoteByte_def)

lemma asciiTrimSpace_boom: "asciiTrimSpace (''boom'' @ [CHR 0x0A] @ ''partial '') = ''boom'' @ [CHR 0x0A] @ ''partial''"
  by (simp add: asciiTrimSpace_def isSpace_def)

lemma Run_shCmd:
  "Run exHost live None shCmd [(''partial '', ''boom'', Some (Leaf ''exit status 1''))] =
     ((''partial '',
       Some (Wrapped ([CHR 0x22] @ ''/bin/sh -c echo '' @ [CHR 0x5C, CHR 0x22] @ ''hi'' @
                      [CHR 0x5C, CHR 0x22, CHR 0x22] @ '' failed: boom'' @ [CHR 0x0A] @
                      ''partial: exit status 1'')
               (Leaf ''exit status 1''))), [])"
proof -
  have st: "Start exHost (rebuilt exHost live shCmd [(''partial '', ''boom'', Some (Leaf ''exit status 1''))])
               (logged exHost live None shCmd [(''partial '', ''boom'', Some (Leaf ''exit status 1''))]) =
            ((''partial '', ''boom'', Some (Leaf ''exit status 1'')), [])"
    by (simp add: exHost_def exStart_def logged_def NewLogger_def nopLogger_def)
  have q: "Quote exHost = asciiQuote" and t: "TrimSpace exHost = asciiTrimSpace"
    by (simp_all add: exHost_def)
  show ?thesis
    unfolding Run_outcome[OF st] q t commandLine_shCmd asciiQuote_sh asciiTrimSpace_boom
    by simp
qed

lemma submitted_tryOnce:
  "submitted (tryOnce h ctx lg r ns sa w) =
     (Command h w ''kubectl''
        [''create'', ''--raw'',
         ''/api/v1/namespaces/'' @ ns @ ''/serviceaccounts/'' @ sa @ ''/token'', ''-f'', ''-''])
       \<lparr>Stdin := Some tokenRequestBody\<rparr>"
  by (simp add: tryOnce_def submitted_def Let_def split: prod.splits option.splits sum.splits)

lemma scripted_step:
  "tryOnce exHost live nopLogger scripted ns sa ((out, errs, e) # ps) =
     (fst (tryOnce exHost live nopLogger scripted ns sa ((out, errs, e) # ps)), ps,
      submitted (tryOnce exHost live nopLogger scripted ns sa ((out, errs, e) # ps)))"
  by (simp add: prod_eq_iff tryOnce_scripted submitted_def)

lemma scripted_fail:
  "snd (fst (tryOnce exHost live nopLogger scripted ns sa ((out, errs, e) # ps))) = Some x \<Longrightarrow>
   world_before exHost live nopLogger scripted ns sa (Suc k) ((out, errs, e) # ps) =
   world_before exHost live nopLogger scripted ns sa k ps"
  by (subst world_before_shift) (simp add: case_prod_beta tryOnce_scripted(2) nopLogger_def)

lemma collaborators: "NewLogger None = nopLogger" "runnerOr h (Some x) = x" "runnerOr h None = DefaultRunner h"
  by (simp_all add: NewLogger_def runnerOr_def)

lemma try_notReady:
  "fst (tryOnce exHost live nopLogger scripted ''ns'' ''sa'' (notReady # ps)) =
     ([], Some (Wrapped ''token request failed (ns=ns sa=sa): exit status 1'' (Leaf ''exit status 1'')))"
  unfolding notReady_def tryOnce_scripted by simp

lemma try_empty:
  "fst (tryOnce exHost live nopLogger scripted ''ns'' ''sa'' ((tokenBody [], [], None) # ps)) =
     ([], Some (Leaf ''token is empty''))"
  unfolding tryOnce_scripted tokenDoc_empty by simp

lemma try_abc:
  "fst (tryOnce exHost live nopLogger scripted ''ns'' ''sa'' ((tokenBody ''abc123'', [], None) # ps)) =
     (''abc123'', None)"
  unfolding tryOnce_scripted tokenDoc_abc by simp

lemma wb1:
  "world_before exHost live nopLogger scripted ''ns'' ''sa'' (Suc k) (notReady # ps) =
   world_before exHost live nopLogger scripted ''ns'' ''sa'' k ps"
  unfolding notReady_def
  by (rule scripted_fail) (simp add: try_notReady[unfolded notReady_def])

lemma wb2:
  "world_before exHost live nopLogger scripted ''ns'' ''sa'' (Suc k) ((tokenBody [], [], None) # ps) =
   world_before exHost live nopLogger scripted ''ns'' ''sa'' k ps"
  by (rule scripted_fail) (simp add: try_empty)

lemma Run_token:
  "Run exHost live (Some nopLogger) c [(tokenBody ''abc123'', [], None)] =
     ((tokenBody ''abc123'', None), [])"
proof -
  have st: "Start exHost (rebuilt exHost live c [(tokenBody ''abc123'', [], None)])
              (logged exHost live (Some nopLogger) c [(tokenBody ''abc123'', [], None)]) =
            ((tokenBody ''abc123'', [], None), [])"
    by (simp add: exHost_def exStart_def logged_def NewLogger_def nopLogger_def)
  from Run_outcome[OF st] show ?thesis by simp
qed

section \<open>The claims\<close>

text \<open>
  C1. Cancellation of \<^verbatim>\<open>ServiceAccountToken\<close>. The function looks at the context at two
  places only: the pre-check before the first attempt, and the \<^verbatim>\<open>select\<close> of the loop; the
  context "becomes done" for the call when the \<^verbatim>\<open>select\<close> takes its \<^verbatim>\<open>ctx.Done()\<close> case.
  \<^item> A context that is done on entry: the call returns the empty token and the context's
    error, in the world it started in, with no command given to the runner, whatever the
    schedule.
  \<^item> A live context, the first \<open>n + 1\<close> attempts failing and the \<^verbatim>\<open>select\<close> taking \<open>n\<close> ticks
    and then the done case: the call returns the empty token and the failure of attempt
    \<open>n\<close>, the most recent one, which is not nil; \<open>n + 1\<close> commands went to the runner.
  \<^item> The done case of the loop itself returns \<^verbatim>\<open>lastErr\<close>, or the context's error when
    \<^verbatim>\<open>lastErr\<close> is nil.
\<close>

theorem C1_cancellation:
  "(\<forall>e. Err ctx = Some e \<longrightarrow>
        ServiceAccountToken h ctx logger r ns sa schedule w =
          Some \<lparr>returned = ([], Some e), world = w, runs = []\<rparr>) \<and>
   (Err ctx = None \<and>
    (\<forall>k<Suc n. failure (attempt h ctx (NewLogger logger) (runnerOr h r) ns sa k w) \<noteq> None) \<longrightarrow>
      failure (attempt h ctx (NewLogger logger) (runnerOr h r) ns sa n w) \<noteq> None \<and>
      ServiceAccountToken h ctx logger r ns sa (replicate n Tick @ Done ce # rest) w =
        Some \<lparr>returned = ([], failure (attempt h ctx (NewLogger logger) (runnerOr h r) ns sa n w)),
              world = world_before h ctx (NewLogger logger) (runnerOr h r) ns sa (Suc n) w,
              runs = map (\<lambda>k. submitted (attempt h ctx (NewLogger logger) (runnerOr h r) ns sa k w))
                       [0..<Suc n]\<rparr>) \<and>
   poll h ctx lg rr ns sa (Done ce # rest) lastErr w cs =
     Some \<lparr>returned = ([], (case lastErr of None \<Rightarrow> Some ce | Some e \<Rightarrow> Some e)),
           world = w, runs = cs\<rparr>"
proof (intro conjI allI impI)
  fix e assume "Err ctx = Some e"
  then show "ServiceAccountToken h ctx logger r ns sa schedule w =
          Some \<lparr>returned = ([], Some e), world = w, runs = []\<rparr>"
    by (simp add: ServiceAccountToken_def Let_def)
next
  assume a: "Err ctx = None \<and>
    (\<forall>k<Suc n. failure (attempt h ctx (NewLogger logger) (runnerOr h r) ns sa k w) \<noteq> None)"
  then show f: "failure (attempt h ctx (NewLogger logger) (runnerOr h r) ns sa n w) \<noteq> None"
    by simp
  from a have live: "Err ctx = None"
    and fails: "\<forall>k<Suc n. failure (attempt h ctx (NewLogger logger) (runnerOr h r) ns sa k w) \<noteq> None"
    by simp_all
  show "ServiceAccountToken h ctx logger r ns sa (replicate n Tick @ Done ce # rest) w =
        Some \<lparr>returned = ([], failure (attempt h ctx (NewLogger logger) (runnerOr h r) ns sa n w)),
              world = world_before h ctx (NewLogger logger) (runnerOr h r) ns sa (Suc n) w,
              runs = map (\<lambda>k. submitted (attempt h ctx (NewLogger logger) (runnerOr h r) ns sa k w))
                       [0..<Suc n]\<rparr>"
    unfolding SAT_ticks[OF live fails] using f by simp
next
  show "poll h ctx lg rr ns sa (Done ce # rest) lastErr w cs =
     Some \<lparr>returned = ([], (case lastErr of None \<Rightarrow> Some ce | Some e \<Rightarrow> Some e)),
           world = w, runs = cs\<rparr>"
    by (simp split: option.splits)
qed

text \<open>
  C1 on the example host: a cancelled context with one answer waiting, and a live one
  that is done after the second failed attempt, with a third answer never asked for.
\<close>

theorem C1_cancellation_witness:
  "ServiceAccountToken exHost canceled None (Some scripted) ''ns'' ''sa'' [] [notReady] =
     Some \<lparr>returned = ([], Some (Leaf ''context canceled'')), world = [notReady], runs = []\<rparr> \<and>
   (\<exists>out. ServiceAccountToken exHost live None (Some scripted) ''ns'' ''sa''
             [Tick, Done (Leaf ''context deadline exceeded''), Tick]
             [notReady, (tokenBody [], [], None), (tokenBody ''abc123'', [], None)] = Some out \<and>
          returned out = ([], Some (Leaf ''token is empty'')) \<and>
          world out = [(tokenBody ''abc123'', [], None)] \<and> length (runs out) = 2)"
proof -
  let ?w = "[notReady, (tokenBody [], [], None), (tokenBody ''abc123'', [], None)]"
  let ?at = "attempt exHost live (NewLogger None) (runnerOr exHost (Some scripted)) ''ns'' ''sa''"
  have dead: "Err canceled = Some (Leaf ''context canceled'')" by (simp add: canceled_def)
  have live: "Err live = None" by (simp add: live_def)
  have fails: "\<forall>k<Suc (Suc 0). failure (?at k ?w) \<noteq> None"
    by (simp add: All_less_Suc collaborators attempt_def failure_def wb1 try_notReady try_empty
        del: world_before.simps(2))
  have last: "failure (?at (Suc 0) ?w) = Some (Leaf ''token is empty'')"
    by (simp add: collaborators attempt_def failure_def wb1 try_empty del: world_before.simps(2))
  have after: "world_before exHost live (NewLogger None) (runnerOr exHost (Some scripted)) ''ns'' ''sa''
                 (Suc (Suc 0)) ?w = [(tokenBody ''abc123'', [], None)]"
    by (simp add: collaborators wb1 wb2 del: world_before.simps(2))
  note c = C1_cancellation[where h = exHost and logger = None and r = "Some scripted"
      and ns = "''ns''" and sa = "''sa''" and n = "Suc 0"
      and ce = "Leaf ''context deadline exceeded''" and rest = "[Tick]"]
  from c[where ctx = canceled and w = "[notReady]" and schedule = "[]"] dead
  have one: "ServiceAccountToken exHost canceled None (Some scripted) ''ns'' ''sa'' [] [notReady] =
     Some \<lparr>returned = ([], Some (Leaf ''context canceled'')), world = [notReady], runs = []\<rparr>"
    by blast
  from c[where ctx = live and w = ?w] live fails
  have two: "ServiceAccountToken exHost live None (Some scripted) ''ns'' ''sa''
               (replicate (Suc 0) Tick @ Done (Leaf ''context deadline exceeded'') # [Tick]) ?w =
             Some \<lparr>returned = ([], failure (?at (Suc 0) ?w)),
                   world = world_before exHost live (NewLogger None) (runnerOr exHost (Some scripted))
                             ''ns'' ''sa'' (Suc (Suc 0)) ?w,
                   runs = map (\<lambda>k. submitted (?at k ?w)) [0..<Suc (Suc 0)]\<rparr>"
    by blast
  from one two show ?thesis
    unfolding last after by simp
qed

text \<open>
  C2. On a live context, when attempts \<open>0\<close> to \<open>n - 1\<close> fail and attempt \<open>n\<close> yields the token
  \<open>tok\<close>, the call returns \<open>tok\<close> with a nil error after \<open>n\<close> ticks, whatever the schedule holds
  after them, and the runner was called exactly \<open>n + 1\<close> times. For \<open>n = 0\<close> the schedule is
  arbitrary, the empty one included: the first attempt waits for no tick.
\<close>

theorem C2_eager_then_retry:
  assumes live: "Err ctx = None"
    and fails: "\<forall>k<n. failure (attempt h ctx (NewLogger logger) (runnerOr h r) ns sa k w) \<noteq> None"
    and succeeds: "attempt h ctx (NewLogger logger) (runnerOr h r) ns sa n w = ((tok, None), w', c)"
  shows "\<exists>cs. ServiceAccountToken h ctx logger r ns sa (replicate n Tick @ rest) w =
                Some \<lparr>returned = (tok, None), world = w', runs = cs\<rparr> \<and>
              length cs = n + 1 \<and>
              cs = map (\<lambda>k. submitted (attempt h ctx (NewLogger logger) (runnerOr h r) ns sa k w))
                     [0..<Suc n]"
proof (cases n)
  case 0
  with succeeds show ?thesis
    unfolding SAT_live[OF live] by (simp add: failure_def submitted_def)
next
  case (Suc m)
  let ?lg = "NewLogger logger" and ?r = "runnerOr h r"
  from fails Suc have f: "\<forall>k<Suc m. failure (attempt h ctx ?lg ?r ns sa k w) \<noteq> None"
    by simp
  have t: "tryOnce h ctx ?lg ?r ns sa (world_before h ctx ?lg ?r ns sa (Suc m) w) = ((tok, None), w', c)"
    using succeeds Suc by (simp only: attempt_def)
  have c: "submitted (attempt h ctx ?lg ?r ns sa (Suc m) w) = c"
    using succeeds Suc by (simp add: submitted_def)
  have sch: "replicate n Tick @ rest = replicate m Tick @ Tick # rest"
    using Suc by (simp add: replicate_app_Cons_same)
  show ?thesis
    unfolding sch SAT_ticks[OF live f] using t c Suc by simp
qed

text \<open>
  C2 on the example host: a failed process, an empty token, then the token.
\<close>

theorem C2_eager_then_retry_witness:
  "\<exists>cs. ServiceAccountToken exHost live None (Some scripted) ''ns'' ''sa'' [Tick, Tick]
           [notReady, (tokenBody [], [], None), (tokenBody ''abc123'', [], None)] =
         Some \<lparr>returned = (''abc123'', None), world = [], runs = cs\<rparr> \<and> length cs = 3"
proof -
  let ?w = "[notReady, (tokenBody [], [], None), (tokenBody ''abc123'', [], None)]"
  let ?at = "attempt exHost live (NewLogger None) (runnerOr exHost (Some scripted)) ''ns'' ''sa''"
  have live: "Err live = None" by (simp add: live_def)
  have fails: "\<forall>k<Suc (Suc 0). failure (?at k ?w) \<noteq> None"
    by (simp add: All_less_Suc collaborators attempt_def failure_def wb1 try_notReady try_empty
        del: world_before.simps(2))
  have succeeds: "?at (Suc (Suc 0)) ?w = ((''abc123'', None), [], submitted (?at (Suc (Suc 0)) ?w))"
    by (simp add: collaborators attempt_def wb1 wb2 prod_eq_iff try_abc tryOnce_scripted(2) submitted_def
        del: world_before.simps(2))
  from C2_eager_then_retry[OF live fails succeeds, of "[]"] show ?thesis
    by auto
qed

text \<open>
  C3. One attempt, when the runner returns the string \<open>body\<close> and a nil error. If the
  decoder yields a non-empty \<^verbatim>\<open>Status.Token\<close>, the attempt returns exactly that token and a
  nil error. If the decoder fails, the attempt returns the empty token and an error that
  wraps the decoder's; if the decoded token is empty, it returns the empty token and the
  error "token is empty". The loop treats both as any failed attempt (C2).
\<close>

theorem C3_attempt_outcome:
  assumes "r ctx (Some lg) (submitted (tryOnce h ctx lg r ns sa w)) w = ((body, None), w')"
  shows "(\<forall>tok. Unmarshal h body = Inr tok \<and> tok \<noteq> [] \<longrightarrow>
              fst (tryOnce h ctx lg r ns sa w) = (tok, None)) \<and>
         (\<forall>e. Unmarshal h body = Inl e \<longrightarrow>
              fst (tryOnce h ctx lg r ns sa w) =
                ([], Some (Wrapped (''token response json parse failed: '' @ Error e @
                                    '' (body='' @ Quote h body @ '')'') e))) \<and>
         (Unmarshal h body = Inr [] \<longrightarrow>
              fst (tryOnce h ctx lg r ns sa w) = ([], Some (Leaf ''token is empty'')))"
  using assms unfolding submitted_tryOnce
  by (simp add: tryOnce_def Let_def)

text \<open>
  C3 on the three responses of the spec: a token, an empty token, text that is not JSON.
\<close>

theorem C3_attempt_outcome_witness:
  "fst (tryOnce exHost live nopLogger scripted ''ns'' ''sa'' [(tokenBody ''abc123'', [], None)]) =
     (''abc123'', None) \<and>
   fst (tryOnce exHost live nopLogger scripted ''ns'' ''sa'' [(tokenBody [], [], None)]) =
     ([], Some (Leaf ''token is empty'')) \<and>
   (\<exists>er. fst (tryOnce exHost live nopLogger scripted ''ns'' ''sa'' [(''not json'', [], None)]) =
            ([], Some er))"
proof -
  have u: "Unmarshal exHost = tokenDoc" by (simp add: exHost_def)
  have a: "scripted live (Some nopLogger)
             (submitted (tryOnce exHost live nopLogger scripted ''ns'' ''sa'' [(b, [], None)]))
             [(b, [], None)] = ((b, None), [])" for b
    by (simp add: scripted_def)
  have c: "(\<forall>tok. Unmarshal exHost b = Inr tok \<and> tok \<noteq> [] \<longrightarrow>
              fst (tryOnce exHost live nopLogger scripted ''ns'' ''sa'' [(b, [], None)]) = (tok, None)) \<and>
         (\<forall>e. Unmarshal exHost b = Inl e \<longrightarrow>
              fst (tryOnce exHost live nopLogger scripted ''ns'' ''sa'' [(b, [], None)]) =
                ([], Some (Wrapped (''token response json parse failed: '' @ Error e @
                                    '' (body='' @ Quote exHost b @ '')'') e))) \<and>
         (Unmarshal exHost b = Inr [] \<longrightarrow>
              fst (tryOnce exHost live nopLogger scripted ''ns'' ''sa'' [(b, [], None)]) =
                ([], Some (Leaf ''token is empty'')))" for b
    by (rule C3_attempt_outcome[where r = scripted and w' = "[]", OF a])
  from c[of "tokenBody ''abc123''"] c[of "tokenBody []"] c[of "''not json''"]
  show ?thesis
    unfolding u tokenDoc_abc tokenDoc_empty tokenDoc_text by simp
qed

text \<open>
  C4. \<^verbatim>\<open>DefaultRunner.Run\<close> starts one process, that of the rebuilt command, and its
  result is read off that process; the environment of the claim is the list \<^verbatim>\<open>Env\<close> of
  that command, as \<^verbatim>\<open>Run\<close> hands it to \<^verbatim>\<open>(*exec.Cmd).Run\<close>. When the caller's list has length
  0 (no list supplied) it is the host's environment followed by \<^verbatim>\<open>GO111MODULE=on\<close>.
  Otherwise it is the caller's list followed by the marker: the caller's entries are its
  prefix, in their order, and every string occurs in it as often as in the caller's
  list, the marker once more. What the library does with the list when it starts the
  process is part of \<open>Start\<close>.
\<close>

theorem C4_environment_marker_appended:
  "Run h ctx logger cmd w =
     (case Start h (rebuilt h ctx cmd w) (logged h ctx logger cmd w) of
        ((out, errs, e), w2) \<Rightarrow>
          ((out, map_option (\<lambda>x. Wrapped (Quote h (commandLine h ctx cmd w) @ '' failed: '' @
                                 TrimSpace h (errs @ [CHR 0x0A] @ out) @ '': '' @ Error x) x) e), w2)) \<and>
   (Env cmd = [] \<longrightarrow> Env (rebuilt h ctx cmd w) = Environ h w @ [marker]) \<and>
   (Env cmd \<noteq> [] \<longrightarrow>
      Env (rebuilt h ctx cmd w) = Env cmd @ [marker] \<and>
      take (length (Env cmd)) (Env (rebuilt h ctx cmd w)) = Env cmd \<and>
      (\<forall>x. count_list (Env (rebuilt h ctx cmd w)) x =
           count_list (Env cmd) x + (if x = marker then 1 else 0)))"
proof -
  obtain out errs e w2 where
    st: "Start h (rebuilt h ctx cmd w) (logged h ctx logger cmd w) = ((out, errs, e), w2)"
    by (metis prod.exhaust)
  have "Run h ctx logger cmd w =
     (case Start h (rebuilt h ctx cmd w) (logged h ctx logger cmd w) of
        ((out, errs, e), w2) \<Rightarrow>
          ((out, map_option (\<lambda>x. Wrapped (Quote h (commandLine h ctx cmd w) @ '' failed: '' @
                                 TrimSpace h (errs @ [CHR 0x0A] @ out) @ '': '' @ Error x) x) e), w2))"
    unfolding Run_outcome[OF st] st by simp
  then show ?thesis
    by (simp add: Env_rebuilt)
qed

text \<open>
  C4 through \<^verbatim>\<open>Run\<close>, on a host whose processes print the environment they get: a
  command with two variables, and one with none.
\<close>

theorem C4_environment_marker_appended_witness:
  "Run envHost live None lsCmd [] =
     ((''A=1'' @ [CHR 0x0A] @ ''B=2'' @ [CHR 0x0A] @ ''GO111MODULE=on'', None), []) \<and>
   Run envHost live None shCmd [] =
     ((''HOME=/root'' @ [CHR 0x0A] @ ''PATH=/usr/bin'' @ [CHR 0x0A] @ ''GO111MODULE=on'', None), [])"
proof -
  have s: "Start envHost = printEnv" and en: "Environ envHost w = [''HOME=/root'', ''PATH=/usr/bin'']" for w
    by (simp_all add: envHost_def exHost_def)
  have l: "Env lsCmd = [''A=1'', ''B=2'']" and e: "Env shCmd = []"
    by (simp_all add: lsCmd_def shCmd_def)
  have lg: "logged envHost live None c [] = []" for c
    by (simp add: logged_def NewLogger_def nopLogger_def)
  from C4_environment_marker_appended[where h = envHost and ctx = live and logger = None
      and cmd = lsCmd and w = "[]"]
    C4_environment_marker_appended[where h = envHost and ctx = live and logger = None
      and cmd = shCmd and w = "[]"]
  show ?thesis
    by (simp add: s en l e lg printEnv_def marker_def)
qed

text \<open>
  C5, as the code has it. When the process fails with the error \<open>e\<close>, \<^verbatim>\<open>Run\<close> returns the
  standard output captured and an error that wraps \<open>e\<close>, whose message is the command line
  as the verb \<^verbatim>\<open>%q\<close> renders it (quoted and escaped), then " failed: ", then the trimmed
  text made of the standard error, a newline and the standard output, then ": " and the
  message of \<open>e\<close>.
\<close>

theorem C5_failure_report:
  assumes "Start h (rebuilt h ctx cmd w) (logged h ctx logger cmd w) = ((out, errs, Some e), w2)"
  shows "Run h ctx logger cmd w =
           ((out, Some (Wrapped (Quote h (commandLine h ctx cmd w) @ '' failed: '' @
                                 TrimSpace h (errs @ [CHR 0x0A] @ out) @ '': '' @ Error e) e)), w2)"
  using Run_outcome[OF assms] by simp

text \<open>
  C5 on a shell command with a quoted word, failing with partial output.
\<close>

theorem C5_failure_report_witness:
  "Run exHost live None shCmd [(''partial '', ''boom'', Some (Leaf ''exit status 1''))] =
     ((''partial '',
       Some (Wrapped ([CHR 0x22] @ ''/bin/sh -c echo '' @ [CHR 0x5C, CHR 0x22] @ ''hi'' @
                      [CHR 0x5C, CHR 0x22, CHR 0x22] @ '' failed: boom'' @ [CHR 0x0A] @
                      ''partial: exit status 1'')
               (Leaf ''exit status 1''))), [])"
proof -
  have st: "Start exHost (rebuilt exHost live shCmd [(''partial '', ''boom'', Some (Leaf ''exit status 1''))])
               (logged exHost live None shCmd [(''partial '', ''boom'', Some (Leaf ''exit status 1''))]) =
            ((''partial '', ''boom'', Some (Leaf ''exit status 1'')), [])"
    by (simp add: exHost_def exStart_def logged_def NewLogger_def nopLogger_def)
  have q: "Quote exHost = asciiQuote" and t: "TrimSpace exHost = asciiTrimSpace"
    by (simp_all add: exHost_def)
  show ?thesis
    unfolding C5_failure_report[OF st] q t commandLine_shCmd asciiQuote_sh asciiTrimSpace_boom
    by simp
qed

text \<open>
  C5 as stated fails there: the message holds the command line with its two double
  quotes escaped, so the command line itself is not a part of it; nor is the trimmed text
  of the standard error directly followed by the standard output, since a newline
  separates them.
\<close>

theorem C5_counterexample:
  "snd (fst (Run exHost live None shCmd [(''partial '', ''boom'', Some (Leaf ''exit status 1''))])) \<noteq> None \<and>
   \<not> Contains
       (Error (the (snd (fst (Run exHost live None shCmd
                                [(''partial '', ''boom'', Some (Leaf ''exit status 1''))])))))
       (commandLine exHost live shCmd [(''partial '', ''boom'', Some (Leaf ''exit status 1''))]) \<and>
   \<not> Contains
       (Error (the (snd (fst (Run exHost live None shCmd
                                [(''partial '', ''boom'', Some (Leaf ''exit status 1''))])))))
       (asciiTrimSpace (''boom'' @ ''partial ''))"
  unfolding Run_shCmd commandLine_shCmd by (simp add: asciiTrimSpace_def isSpace_def)

text \<open>
  C6. Whatever the process yields, \<^verbatim>\<open>Run\<close> returns its standard output as the string,
  untouched by the standard error; the error returned is nil exactly when the process
  succeeded; a failed process gives an error that wraps the failure of the process; and
  an error returned always has a cause.
\<close>

theorem C6_result_invariant:
  assumes "Start h (rebuilt h ctx cmd w) (logged h ctx logger cmd w) = ((out, errs, e), w2)"
  shows "fst (fst (Run h ctx logger cmd w)) = out \<and>
         (snd (fst (Run h ctx logger cmd w)) = None) = (e = None) \<and>
         (\<forall>c. e = Some c \<longrightarrow>
              (\<exists>er. snd (fst (Run h ctx logger cmd w)) = Some er \<and> Unwrap er = Some c)) \<and>
         (\<forall>er. snd (fst (Run h ctx logger cmd w)) = Some er \<longrightarrow> Unwrap er \<noteq> None)"
  using Run_outcome[OF assms] by auto

text \<open>
  C6 on a process that succeeds with a warning on standard error, and on one that fails.
\<close>

theorem C6_result_invariant_witness:
  "fst (Run exHost live None lsCmd [(''a.txt'', ''warning: slow'', None)]) = (''a.txt'', None) \<and>
   fst (fst (Run exHost live None lsCmd [(''a'', ''no such file'', Some (Leaf ''exit status 2''))])) = ''a'' \<and>
   (\<exists>er. snd (fst (Run exHost live None lsCmd [(''a'', ''no such file'', Some (Leaf ''exit status 2''))])) = Some er \<and>
         Unwrap er = Some (Leaf ''exit status 2''))"
proof -
  have ok: "Start exHost (rebuilt exHost live lsCmd [(''a.txt'', ''warning: slow'', None)])
               (logged exHost live None lsCmd [(''a.txt'', ''warning: slow'', None)]) =
            ((''a.txt'', ''warning: slow'', None), [])"
    by (simp add: exHost_def exStart_def logged_def NewLogger_def nopLogger_def)
  have ko: "Start exHost (rebuilt exHost live lsCmd [(''a'', ''no such file'', Some (Leaf ''exit status 2''))])
               (logged exHost live None lsCmd [(''a'', ''no such file'', Some (Leaf ''exit status 2''))]) =
            ((''a'', ''no such file'', Some (Leaf ''exit status 2'')), [])"
    by (simp add: exHost_def exStart_def logged_def NewLogger_def nopLogger_def)
  from C6_result_invariant[OF ok] C6_result_invariant[OF ko] show ?thesis
    by (simp add: prod_eq_iff)
qed

text \<open>
  C7, as the code has it. \<^verbatim>\<open>Run\<close> starts one process, that of the rebuilt command, and
  reads its result off that process. The rebuilt command is bound to the context. With \<open>path\<close> the caller's path, or the caller's first argument when the path is empty:
  its path is \<open>path\<close>, or what the host's lookup finds for it when \<open>path\<close> is a bare name;
  its argument vector is \<open>path\<close> followed by the caller's arguments after the first; its
  directory and its input stream are the caller's (a stream of zero bytes stays one); its
  environment is the caller's list, or the host's when that list is empty, followed by
  the marker.
\<close>

theorem C7_rebuilt_descriptor:
  "Run h ctx logger cmd w =
     (case Start h (rebuilt h ctx cmd w) (logged h ctx logger cmd w) of
        ((out, errs, e), w2) \<Rightarrow>
          ((out, map_option (\<lambda>x. Wrapped (Quote h (commandLine h ctx cmd w) @ '' failed: '' @
                                 TrimSpace h (errs @ [CHR 0x0A] @ out) @ '': '' @ Error x) x) e), w2)) \<and>
   Ctx (rebuilt h ctx cmd w) = Some ctx \<and>
   Path (rebuilt h ctx cmd w) =
     (let path = (if Path cmd = [] \<and> Args cmd \<noteq> [] then hd (Args cmd) else Path cmd)
      in if Base path = path \<and> fst (LookPath h w path) \<noteq> [] then fst (LookPath h w path) else path) \<and>
   Args (rebuilt h ctx cmd w) =
     (if Path cmd = [] \<and> Args cmd \<noteq> [] then hd (Args cmd) else Path cmd) # tl (Args cmd) \<and>
   Dir (rebuilt h ctx cmd w) = Dir cmd \<and>
   Stdin (rebuilt h ctx cmd w) = Stdin cmd \<and>
   Env (rebuilt h ctx cmd w) = (if Env cmd = [] then Environ h w else Env cmd) @ [marker]"
proof -
  obtain out errs e w2 where
    st: "Start h (rebuilt h ctx cmd w) (logged h ctx logger cmd w) = ((out, errs, e), w2)"
    by (metis prod.exhaust)
  have "Run h ctx logger cmd w =
     (case Start h (rebuilt h ctx cmd w) (logged h ctx logger cmd w) of
        ((out, errs, e), w2) \<Rightarrow>
          ((out, map_option (\<lambda>x. Wrapped (Quote h (commandLine h ctx cmd w) @ '' failed: '' @
                                 TrimSpace h (errs @ [CHR 0x0A] @ out) @ '': '' @ Error x) x) e), w2))"
    unfolding Run_outcome[OF st] st by simp
  then show ?thesis
    by (simp only: Ctx_rebuilt Path_rebuilt Args_rebuilt Dir_rebuilt Stdin_rebuilt Env_rebuilt simp_thms)
qed

text \<open>
  C7 on a command built by hand, with a directory, an empty input stream and two
  variables.
\<close>

theorem C7_rebuilt_descriptor_witness:
  "rebuilt exHost live lsCmd [] =
     \<lparr>Path = ''/bin/ls'', Args = [''/bin/ls'', ''-l''], Dir = ''/tmp'', Stdin = Some [],
      Env = [''A=1'', ''B=2'', ''GO111MODULE=on''], Ctx = Some live, LookErr = None\<rparr>"
proof -
  have b: "Base ''/bin/ls'' \<noteq> ''/bin/ls''" by (simp add: Base_def)
  have l: "LookErr (rebuilt exHost live lsCmd []) = None"
    using b by (simp add: rebuilt_def CommandContext_def Command_def lsCmd_def Let_def)
  from C7_rebuilt_descriptor[where h = exHost and ctx = live and logger = None and cmd = lsCmd
      and w = "[]"] b l
  show ?thesis
    by (simp add: lsCmd_def marker_def cmd.equality)
qed

text \<open>
  C7 as stated fails there: path, arguments, directory and input stream are the
  caller's, the environment list is not.
\<close>

theorem C7_counterexample:
  "\<not> (Path (rebuilt exHost live lsCmd []) = Path lsCmd \<and>
      tl (Args (rebuilt exHost live lsCmd [])) = tl (Args lsCmd) \<and>
      Dir (rebuilt exHost live lsCmd []) = Dir lsCmd \<and>
      Stdin (rebuilt exHost live lsCmd []) = Stdin lsCmd \<and>
      Env (rebuilt exHost live lsCmd []) = Env lsCmd)"
  by (simp add: Env_rebuilt lsCmd_def)

text \<open>
  C8. \<^verbatim>\<open>ApplyClusterRoleBinding\<close> gives the runner exactly one command, once:
  \<^verbatim>\<open>kubectl apply -f -\<close>, whose input stream is the manifest with the binding name, the
  role, the service account and the namespace in their four places. The world it leaves
  is the one that single call of the runner left, with the trimmed output logged when
  there is any: the runner is not called again. It returns nil exactly when the runner
  does, and otherwise an error that wraps the runner's, with the message
  "kubectl apply clusterrolebinding failed: " before the runner's.
\<close>

theorem C8_apply_once:
  "let lg = NewLogger logger;
       w1 = lg (''apply ClusterRoleBinding name='' @ Quote h name @ '' role='' @
                Quote h clusterRole @ '' sa='' @ ns @ ''/'' @ sa) w;
       c = (Command h w1 ''kubectl'' [''apply'', ''-f'', ''-''])
             \<lparr>Stdin := Some (manifest name clusterRole sa ns)\<rparr>;
       stdout = fst (fst (runnerOr h r ctx (Some lg) c w1));
       answer = snd (fst (runnerOr h r ctx (Some lg) c w1));
       w2 = snd (runnerOr h r ctx (Some lg) c w1);
       res = ApplyClusterRoleBinding h ctx logger r name clusterRole ns sa w
   in runs res = [c] \<and>
      world res = (if TrimSpace h stdout \<noteq> []
                   then lg (TrimRight (TrimSpace h stdout) [CHR 0x0A]) w2 else w2) \<and>
      Args c = [''kubectl'', ''apply'', ''-f'', ''-''] \<and>
      Stdin c = Some (''apiVersion: rbac.authorization.k8s.io/v1'' @ [CHR 0x0A] @
                      ''kind: ClusterRoleBinding'' @ [CHR 0x0A] @
                      ''metadata:'' @ [CHR 0x0A] @
                      ''  name: '' @ name @ [CHR 0x0A] @
                      ''roleRef:'' @ [CHR 0x0A] @
                      ''  apiGroup: rbac.authorization.k8s.io'' @ [CHR 0x0A] @
                      ''  kind: ClusterRole'' @ [CHR 0x0A] @
                      ''  name: '' @ clusterRole @ [CHR 0x0A] @
                      ''subjects:'' @ [CHR 0x0A] @
                      ''- kind: ServiceAccount'' @ [CHR 0x0A] @
                      ''  name: '' @ sa @ [CHR 0x0A] @
                      ''  namespace: '' @ ns @ [CHR 0x0A]) \<and>
      (returned res = None) = (answer = None) \<and>
      returned res =
        map_option (\<lambda>e. Wrapped (''kubectl apply clusterrolebinding failed: '' @ Error e) e) answer"
  by (simp add: ApplyClusterRoleBinding_def Let_def runnerOr_def Args_Command manifest_def
      split: prod.splits option.splits)

text \<open>
  C8 on the example host, with two answers waiting: an apply that succeeds and one that
  fails each take one answer and leave the other.
\<close>

theorem C8_apply_once_witness:
  "ApplyClusterRoleBinding exHost live None (Some scripted) ''b'' ''r'' ''ns'' ''sa''
     [(''created'', [], None), notReady] =
     \<lparr>returned = None, world = [notReady],
      runs = [\<lparr>Path = ''/usr/bin/kubectl'', Args = [''kubectl'', ''apply'', ''-f'', ''-''], Dir = [],
               Stdin = Some (manifest ''b'' ''r'' ''sa'' ''ns''), Env = [], Ctx = None,
               LookErr = None\<rparr>]\<rparr> \<and>
   returned (ApplyClusterRoleBinding exHost live None (Some scripted) ''b'' ''r'' ''ns'' ''sa''
               [notReady, (''created'', [], None)]) =
     Some (Wrapped ''kubectl apply clusterrolebinding failed: exit status 1'' (Leaf ''exit status 1'')) \<and>
   world (ApplyClusterRoleBinding exHost live None (Some scripted) ''b'' ''r'' ''ns'' ''sa''
            [notReady, (''created'', [], None)]) = [(''created'', [], None)]"
proof -
  have k: "Command exHost w ''kubectl'' [''apply'', ''-f'', ''-''] =
             \<lparr>Path = ''/usr/bin/kubectl'', Args = [''kubectl'', ''apply'', ''-f'', ''-''], Dir = [],
              Stdin = None, Env = [], Ctx = None, LookErr = None\<rparr>" for w
    by (simp add: Command_def Base_def exHost_def Let_def)
  have m: "manifest ''b'' ''r'' ''sa'' ''ns'' =
      ''apiVersion: rbac.authorization.k8s.io/v1'' @ [CHR 0x0A] @
      ''kind: ClusterRoleBinding'' @ [CHR 0x0A] @
      ''metadata:'' @ [CHR 0x0A] @
      ''  name: '' @ ''b'' @ [CHR 0x0A] @
      ''roleRef:'' @ [CHR 0x0A] @
      ''  apiGroup: rbac.authorization.k8s.io'' @ [CHR 0x0A] @
      ''  kind: ClusterRole'' @ [CHR 0x0A] @
      ''  name: '' @ ''r'' @ [CHR 0x0A] @
      ''subjects:'' @ [CHR 0x0A] @
      ''- kind: ServiceAccount'' @ [CHR 0x0A] @
      ''  name: '' @ ''sa'' @ [CHR 0x0A] @
      ''  namespace: '' @ ''ns'' @ [CHR 0x0A]"
    by (simp only: manifest_def)
  from C8_apply_once[where h = exHost and ctx = live and logger = None and r = "Some scripted"
      and name = "''b''" and clusterRole = "''r''" and ns = "''ns''" and sa = "''sa''"
      and w = "[(''created'', [], None), notReady]"]
    C8_apply_once[where h = exHost and ctx = live and logger = None and r = "Some scripted"
      and name = "''b''" and clusterRole = "''r''" and ns = "''ns''" and sa = "''sa''"
      and w = "[notReady, (''created'', [], None)]"]
  show ?thesis
    unfolding Let_def collaborators k m[symmetric]
    by (simp add: nopLogger_def scripted_def notReady_def outcome.equality)
qed

text \<open>
  C9. A call whose context is done on entry, or whose schedule holds a done case,
  returns. Whatever a call returns is either a non-empty token with a nil error, or the
  empty token with an error.
\<close>

theorem C9_token_xor_error:
  "(Err ctx \<noteq> None \<or> (\<exists>e. Done e \<in> set schedule) \<longrightarrow>
      (\<exists>out. ServiceAccountToken h ctx logger r ns sa schedule w = Some out)) \<and>
   (\<forall>out. ServiceAccountToken h ctx logger r ns sa schedule w = Some out \<longrightarrow>
      (fst (returned out) \<noteq> [] \<and> snd (returned out) = None) \<or>
      (fst (returned out) = [] \<and> snd (returned out) \<noteq> None))"
proof -
  let ?lg = "NewLogger logger" and ?r = "runnerOr h r"
  let ?a0 = "attempt h ctx ?lg ?r ns sa 0 w"
  obtain tok err w' c where a0: "?a0 = ((tok, err), w', c)"
    by (metis prod.exhaust)
  then have t: "tryOnce h ctx ?lg ?r ns sa w = ((tok, err), w', c)"
    by (simp add: attempt_def)
  have dead: "ServiceAccountToken h ctx logger r ns sa schedule w =
                Some \<lparr>returned = ([], Some e), world = w, runs = []\<rparr>" if "Err ctx = Some e" for e
    using that by (simp add: ServiceAccountToken_def Let_def)
  have first: "ServiceAccountToken h ctx logger r ns sa schedule w =
                 Some \<lparr>returned = (tok, None), world = w', runs = [c]\<rparr>"
    if "Err ctx = None" "err = None"
    unfolding SAT_live[OF that(1)] using a0 that(2) by (simp add: failure_def submitted_def)
  have loop: "ServiceAccountToken h ctx logger r ns sa schedule w =
                poll h ctx ?lg ?r ns sa schedule (Some e)
                  (world_before h ctx ?lg ?r ns sa (Suc 0) w) [c]"
    if "Err ctx = None" "err = Some e" for e
    unfolding SAT_live[OF that(1)] using a0 that(2) by (simp add: failure_def submitted_def)
  have returns: "\<exists>out. ServiceAccountToken h ctx logger r ns sa schedule w = Some out"
    if "Err ctx \<noteq> None \<or> (\<exists>e. Done e \<in> set schedule)"
  proof (cases "Err ctx")
    case (Some e)
    from dead[OF this] show ?thesis by simp
  next
    case None
    with that obtain ce where d: "Done ce \<in> set schedule" by auto
    show ?thesis
    proof (cases err)
      case N: None
      from first[OF None N] show ?thesis by simp
    next
      case (Some e)
      from loop[OF None Some] poll_returns[OF d] show ?thesis by simp
    qed
  qed
  have shape: "(fst (returned out) \<noteq> [] \<and> snd (returned out) = None) \<or>
               (fst (returned out) = [] \<and> snd (returned out) \<noteq> None)"
    if s: "ServiceAccountToken h ctx logger r ns sa schedule w = Some out" for out
  proof (cases "Err ctx")
    case (Some e)
    from dead[OF this] s show ?thesis by auto
  next
    case None
    show ?thesis
    proof (cases err)
      case N: None
      from first[OF None N] s tryOnce_shape[OF t] N show ?thesis by auto
    next
      case (Some e)
      from s have "poll h ctx ?lg ?r ns sa schedule (Some e)
                     (world_before h ctx ?lg ?r ns sa (Suc 0) w) [c] = Some out"
        unfolding loop[OF None Some] .
      from poll_shape[OF this] show ?thesis .
    qed
  qed
  from returns shape show ?thesis by blast
qed

text \<open>
  C9 on the example host: the deadline passes after the second failed attempt.
\<close>

theorem C9_token_xor_error_witness:
  "\<exists>out. ServiceAccountToken exHost live None (Some scripted) ''ns'' ''sa''
           [Tick, Done (Leaf ''context deadline exceeded'')]
           [notReady, (tokenBody [], [], None), (tokenBody ''abc123'', [], None)] = Some out \<and>
         ((fst (returned out) \<noteq> [] \<and> snd (returned out) = None) \<or>
          (fst (returned out) = [] \<and> snd (returned out) \<noteq> None))"
  using C9_token_xor_error[where h = exHost and ctx = live and logger = None and r = "Some scripted"
      and ns = "''ns''" and sa = "''sa''"
      and schedule = "[Tick, Done (Leaf ''context deadline exceeded'')]"
      and w = "[notReady, (tokenBody [], [], None), (tokenBody ''abc123'', [], None)]"]
  by auto

text \<open>
  C10. Both entry points take a nil runner and a nil logger: a call with the nil
  runner is the call with \<^verbatim>\<open>DefaultRunner{}\<close>, a call with the nil logger is the call with the
  logger that does nothing, and so for both at once.
\<close>

theorem C10_nil_collaborators:
  "ServiceAccountToken h ctx None None ns sa schedule w =
     ServiceAccountToken h ctx (Some nopLogger) (Some (DefaultRunner h)) ns sa schedule w \<and>
   ApplyClusterRoleBinding h ctx None None name clusterRole ns sa w =
     ApplyClusterRoleBinding h ctx (Some nopLogger) (Some (DefaultRunner h)) name clusterRole ns sa w \<and>
   ServiceAccountToken h ctx logger None ns sa schedule w =
     ServiceAccountToken h ctx logger (Some (DefaultRunner h)) ns sa schedule w \<and>
   ServiceAccountToken h ctx None r ns sa schedule w =
     ServiceAccountToken h ctx (Some nopLogger) r ns sa schedule w \<and>
   ApplyClusterRoleBinding h ctx logger None name clusterRole ns sa w =
     ApplyClusterRoleBinding h ctx logger (Some (DefaultRunner h)) name clusterRole ns sa w \<and>
   ApplyClusterRoleBinding h ctx None r name clusterRole ns sa w =
     ApplyClusterRoleBinding h ctx (Some nopLogger) r name clusterRole ns sa w"
  by (simp add: ServiceAccountToken_def ApplyClusterRoleBinding_def NewLogger_def)

text \<open>
  C10 on the example host: with both collaborators nil the token is obtained through
  \<^verbatim>\<open>DefaultRunner\<close>.
\<close>

theorem C10_nil_collaborators_witness:
  "ServiceAccountToken exHost live None None ''ns'' ''sa'' [] [(tokenBody ''abc123'', [], None)] =
     ServiceAccountToken exHost live (Some nopLogger) (Some (DefaultRunner exHost)) ''ns'' ''sa'' []
       [(tokenBody ''abc123'', [], None)] \<and>
   (\<exists>cs. ServiceAccountToken exHost live None None ''ns'' ''sa'' [] [(tokenBody ''abc123'', [], None)] =
          Some \<lparr>returned = (''abc123'', None), world = [], runs = cs\<rparr>)"
proof -
  have u: "Unmarshal exHost = tokenDoc" by (simp add: exHost_def)
  have l: "Err live = None" by (simp add: live_def)
  have t: "tryOnce exHost live nopLogger (Run exHost) ''ns'' ''sa'' [(tokenBody ''abc123'', [], None)] =
             ((''abc123'', None), [],
              submitted (tryOnce exHost live nopLogger (Run exHost) ''ns'' ''sa''
                           [(tokenBody ''abc123'', [], None)]))"
    by (simp add: tryOnce_def Let_def Run_token u tokenDoc_abc submitted_def)
  have e: "\<exists>cs. ServiceAccountToken exHost live (Some nopLogger) (Some (DefaultRunner exHost)) ''ns'' ''sa'' []
             [(tokenBody ''abc123'', [], None)] =
           Some \<lparr>returned = (''abc123'', None), world = [], runs = cs\<rparr>"
    unfolding ServiceAccountToken_def Let_def NewLogger_def DefaultRunner_def option.case l
    by (subst t) simp
  from C10_nil_collaborators[where h = exHost and ctx = live and ns = "''ns''" and sa = "''sa''"
      and schedule = "[]" and w = "[(tokenBody ''abc123'', [], None)]"] e
  show ?thesis by simp
qed

end
